theory Spec2Isabelle
  imports Main
begin

section \<open>The Akismet client of \<^verbatim>\<open>src/index.ts\<close>\<close>

subsection \<open>Values and configuration\<close>

text \<open>
  A field of an \<^verbatim>\<open>AkismetParameters\<close> object has type \<^verbatim>\<open>any\<close>. The client itself only
  ever writes strings into such an object; every other value is opaque to it and is
  carried by \<open>Other\<close>.
\<close>

datatype 'a any = Str string | Other 'a

text \<open>
  \<^verbatim>\<open>{ [key: string]: any }\<close>: an object is a finite map from property names to values; a
  property that is not set is \<open>None\<close>.
\<close>

type_synonym 'a AkismetParameters = "string \<rightharpoonup> 'a any"

text \<open>
  \<^verbatim>\<open>interface AkismetOptions\<close>. A field marked \<^verbatim>\<open>?\<close> may be omitted (\<open>None\<close>). The port
  is a JavaScript \<^verbatim>\<open>number\<close>; ports are modelled as integers.
\<close>

record AkismetOptions =
  blog :: "string option"
  apiKey :: string
  host :: "string option"
  endPoint :: "string option"
  port :: "int option"
  userAgent :: "string option"
  charSet :: "string option"

text \<open>
  The fields of \<^verbatim>\<open>class AkismetClient\<close>; \<open>c_blog\<close> is the source's \<^verbatim>\<open>_blog\<close>, and so on.
\<close>

record AkismetClient =
  c_blog :: string
  c_apiKey :: string
  c_host :: string
  c_endPoint :: string
  c_port :: int
  c_userAgent :: string
  c_charSet :: string

text \<open>
  JavaScript's \<^verbatim>\<open>a || b\<close> yields \<^verbatim>\<open>b\<close> when \<^verbatim>\<open>a\<close> is falsy. An optional string is falsy
  when it is \<^verbatim>\<open>undefined\<close> or the empty string, an optional number when it is
  \<^verbatim>\<open>undefined\<close> or zero.
\<close>

definition or_string :: "string option \<Rightarrow> string \<Rightarrow> string" where
  "or_string a b = (case a of None \<Rightarrow> b | Some s \<Rightarrow> if s = [] then b else s)"

definition or_number :: "int option \<Rightarrow> int \<Rightarrow> int" where
  "or_number a b = (case a of None \<Rightarrow> b | Some n \<Rightarrow> if n = 0 then b else n)"

text \<open>The constructor, lines 195 to 203. The end point is computed from the fields
  \<^verbatim>\<open>_apiKey\<close> and \<^verbatim>\<open>_host\<close> that were assigned just before it.\<close>

definition constructor :: "AkismetOptions \<Rightarrow> AkismetClient" where
  "constructor options =
     (let the_blog = or_string (blog options) [];
          the_apiKey = apiKey options;
          the_host = or_string (host options) ''rest.akismet.com'';
          the_endPoint = or_string (endPoint options) (the_apiKey @ ''.'' @ the_host);
          the_port = or_number (port options) 80;
          the_userAgent =
            or_string (userAgent options) ''Generic Node.js/1.0.0 | Akismet/3.1.7'';
          the_charSet = or_string (charSet options) ''utf-8''
      in \<lparr>c_blog = the_blog, c_apiKey = the_apiKey, c_host = the_host,
          c_endPoint = the_endPoint, c_port = the_port, c_userAgent = the_userAgent,
          c_charSet = the_charSet\<rparr>)"

text \<open>The exported factory \<^verbatim>\<open>akismet.client\<close>.\<close>

definition client :: "AkismetOptions \<Rightarrow> AkismetClient" where
  "client options = constructor options"

text \<open>An options object in which only \<^verbatim>\<open>apiKey\<close> is set.\<close>

definition only_apiKey :: "string \<Rightarrow> AkismetOptions" where
  "only_apiKey k =
     \<lparr>blog = None, apiKey = k, host = None, endPoint = None, port = None,
      userAgent = None, charSet = None\<rparr>"

subsection \<open>The request executor\<close>

text \<open>
  The object handed to \<^verbatim>\<open>url.format\<close> (lines 285 to 290). \<^verbatim>\<open>url.format\<close> belongs to the
  Node.js runtime, not to this package, so it is a parameter \<open>formatURL\<close> of the model.
\<close>

record urlObject =
  protocol :: string
  hostname :: string
  pathname :: string
  url_port :: int

definition requestUrl :: "AkismetClient \<Rightarrow> string \<Rightarrow> string \<Rightarrow> urlObject" where
  "requestUrl c the_hostname path =
     \<lparr>protocol = (if c_port c = 443 then ''https'' else ''http''),
      hostname = the_hostname,
      pathname = path,
      url_port = c_port c\<rparr>"

text \<open>The options object handed to \<^verbatim>\<open>request.post\<close> (lines 292 to 299).\<close>

record 'a request_options =
  url :: string
  form :: "'a AkismetParameters"
  headers :: "(string \<times> string) list"

text \<open>
  What the runtime can deliver to the two handlers that the executor installs:
  \<^item> \<open>RequestDone err status body\<close>: \<^verbatim>\<open>request.post\<close> calls its callback with
    \<^verbatim>\<open>(err, response, body)\<close>, where \<open>status\<close> is \<^verbatim>\<open>response.statusCode\<close>. \<open>err\<close> is
    \<open>None\<close> for \<^verbatim>\<open>null\<close> and \<open>Some e\<close> for an error object (which is truthy);
  \<^item> \<open>DomainError err\<close>: the domain created on line 301 emits \<^verbatim>\<open>'error'\<close> with the value
    that was thrown.
\<close>

datatype 'e transport_event =
  RequestDone "'e option" int string
| DomainError "'e option"

text \<open>
  One call: the caller's parameter object as the call leaves it, the request handed to
  the transport, and what the installed handlers do with an event, as a value of type
  \<open>'r\<close>. For the five operations \<open>'r\<close> is a list: the invocations of the caller's
  callback that the event leads to, in order.
\<close>

record ('a, 'e, 'r) call =
  params :: "'a AkismetParameters"
  request :: "'a request_options"
  on_event :: "'e transport_event \<Rightarrow> 'r"

text \<open>
  \<^verbatim>\<open>_postRequest\<close>, lines 282 to 312. The handler installed by \<^verbatim>\<open>dom.on('error', ...)\<close>
  passes the error on with status 0 and an empty body; the callback given to
  \<^verbatim>\<open>request.post\<close> does the same when \<^verbatim>\<open>err\<close> is truthy and passes \<^verbatim>\<open>null\<close>, the status code
  and the body on otherwise. The query object is sent as it is and is not changed here.
  This definition is what the executor sets up (lines 285 to 302 and the callback of lines
  305 to 310); the call of \<^verbatim>\<open>request.post\<close> inside \<^verbatim>\<open>dom.run\<close> is \<open>dom_run\<close> below.
\<close>

definition postRequest ::
  "AkismetClient \<Rightarrow> (urlObject \<Rightarrow> string) \<Rightarrow> string \<Rightarrow> string \<Rightarrow> 'a AkismetParameters \<Rightarrow>
   ('e option \<Rightarrow> int \<Rightarrow> string \<Rightarrow> 'r) \<Rightarrow> ('a, 'e, 'r) call" where
  "postRequest c formatURL the_hostname path query callback =
     \<lparr>params = query,
      request =
        \<lparr>url = formatURL (requestUrl c the_hostname path),
         form = query,
         headers = [(''content-type'', ''charset='' @ c_charSet c),
                    (''user-agent'', c_userAgent c)]\<rparr>,
      on_event = (\<lambda>ev. case ev of
          DomainError err \<Rightarrow> callback err 0 []
        | RequestDone err status body \<Rightarrow>
            (case err of
               Some e \<Rightarrow> callback (Some e) 0 []
             | None \<Rightarrow> callback None status body))\<rparr>"

subsection \<open>The operations\<close>

text \<open>\<^verbatim>\<open>verifyKey\<close>, lines 211 to 217.\<close>

definition verifyKey ::
  "AkismetClient \<Rightarrow> (urlObject \<Rightarrow> string) \<Rightarrow> ('e option \<Rightarrow> bool \<Rightarrow> 'r) \<Rightarrow> ('a, 'e, 'r list) call" where
  "verifyKey c formatURL callback =
     (let options = [''key'' \<mapsto> Str (c_apiKey c), ''blog'' \<mapsto> Str (c_blog c)]
      in postRequest c formatURL (c_host c) ''/1.1/verify-key'' options
           (\<lambda>err status body.
              [callback err (200 \<le> status \<and> status < 300 \<and> body = ''valid'')]))"

text \<open>\<^verbatim>\<open>checkComment\<close>, lines 226 to 233. The two assignments change the caller's object,
  and that same object is the form of the request.\<close>

definition checkComment ::
  "AkismetClient \<Rightarrow> (urlObject \<Rightarrow> string) \<Rightarrow> 'a AkismetParameters \<Rightarrow>
   ('e option \<Rightarrow> bool \<Rightarrow> 'r) \<Rightarrow> ('a, 'e, 'r list) call" where
  "checkComment c formatURL options callback =
     (let options1 = options(''blog'' \<mapsto> Str (c_blog c));
          options2 = options1(''user_agent'' \<mapsto> Str (c_userAgent c))
      in postRequest c formatURL (c_endPoint c) ''/1.1/comment-check'' options2
           (\<lambda>err status body.
              [callback err (200 \<le> status \<and> status < 300 \<and> body = ''true'')]))"

text \<open>\<^verbatim>\<open>checkSpam\<close>, lines 242 to 244.\<close>

definition checkSpam ::
  "AkismetClient \<Rightarrow> (urlObject \<Rightarrow> string) \<Rightarrow> 'a AkismetParameters \<Rightarrow>
   ('e option \<Rightarrow> bool \<Rightarrow> 'r) \<Rightarrow> ('a, 'e, 'r list) call" where
  "checkSpam c formatURL options callback = checkComment c formatURL options callback"

text \<open>\<^verbatim>\<open>submitSpam\<close>, lines 253 to 260.\<close>

definition submitSpam ::
  "AkismetClient \<Rightarrow> (urlObject \<Rightarrow> string) \<Rightarrow> 'a AkismetParameters \<Rightarrow>
   ('e option \<Rightarrow> 'r) \<Rightarrow> ('a, 'e, 'r list) call" where
  "submitSpam c formatURL options callback =
     (let options1 = options(''blog'' \<mapsto> Str (c_blog c));
          options2 = options1(''user_agent'' \<mapsto> Str (c_userAgent c))
      in postRequest c formatURL (c_endPoint c) ''/1.1/submit-spam'' options2
           (\<lambda>err status body. [callback err]))"

text \<open>\<^verbatim>\<open>submitHam\<close>, lines 269 to 276.\<close>

definition submitHam ::
  "AkismetClient \<Rightarrow> (urlObject \<Rightarrow> string) \<Rightarrow> 'a AkismetParameters \<Rightarrow>
   ('e option \<Rightarrow> 'r) \<Rightarrow> ('a, 'e, 'r list) call" where
  "submitHam c formatURL options callback =
     (let options1 = options(''blog'' \<mapsto> Str (c_blog c));
          options2 = options1(''user_agent'' \<mapsto> Str (c_userAgent c))
      in postRequest c formatURL (c_endPoint c) ''/1.1/submit-ham'' options2
           (\<lambda>err status body. [callback err]))"

text \<open>
  A call run against a transport that delivers the events \<open>evs\<close>, in this order: the
  list of callback invocations the caller sees. A stubbed transport is such a list.
\<close>

definition deliveries :: "('a, 'e, 'r list) call \<Rightarrow> 'e transport_event list \<Rightarrow> 'r list" where
  "deliveries k evs = concat (map (on_event k) evs)"



section \<open>Examples\<close>

text \<open>
  The client of the package's README, and the stubbed exchanges of its documentation,
  evaluated. The callback \<open>Pair\<close> records the arguments it is called with. In place of
  \<^verbatim>\<open>url.format\<close> the examples use the selector \<open>hostname\<close>, so the URL they show is the
  host the request goes to.
\<close>

definition readme_client :: AkismetClient where
  "readme_client =
     client ((only_apiKey ''myakismetapikey123'') \<lparr>blog := Some ''http://my.blog.com''\<rparr>)"

lemma readme_client_fields:
  "readme_client =
     \<lparr>c_blog = ''http://my.blog.com'', c_apiKey = ''myakismetapikey123'',
      c_host = ''rest.akismet.com'', c_endPoint = ''myakismetapikey123.rest.akismet.com'',
      c_port = 80, c_userAgent = ''Generic Node.js/1.0.0 | Akismet/3.1.7'',
      c_charSet = ''utf-8''\<rparr>"
  by (simp add: readme_client_def client_def constructor_def only_apiKey_def or_string_def
      or_number_def Let_def)

lemma readme_verifyKey:
  "deliveries (verifyKey readme_client hostname Pair) [RequestDone None 200 ''valid''] =
     [(None, True)] \<and>
   deliveries (verifyKey readme_client hostname Pair) [RequestDone None 200 ''invalid''] =
     [(None, False)] \<and>
   deliveries (verifyKey readme_client hostname Pair) [RequestDone None 403 ''valid''] =
     [(None, False)] \<and>
   deliveries (verifyKey readme_client hostname Pair)
     [RequestDone (Some ''ECONNREFUSED'') 0 []] = [(Some ''ECONNREFUSED'', False)]"
  by (simp add: deliveries_def verifyKey_def postRequest_def Let_def)

lemma readme_checkComment:
  "deliveries (checkComment readme_client hostname [''user_ip'' \<mapsto> Str ''1.1.1.1''] Pair)
     [RequestDone None 200 ''true''] = [(None, True)] \<and>
   deliveries (checkComment readme_client hostname [''user_ip'' \<mapsto> Str ''1.1.1.1''] Pair)
     [RequestDone None 200 ''false''] = [(None, False)] \<and>
   url (request (checkComment readme_client hostname [''user_ip'' \<mapsto> Str ''1.1.1.1''] Pair)) =
     ''myakismetapikey123.rest.akismet.com''"
  by (simp add: deliveries_def checkComment_def postRequest_def requestUrl_def
      readme_client_fields Let_def)

section \<open>Construction\<close>

text \<open>
  C9. When only \<^verbatim>\<open>apiKey\<close> is set, the client's end point is the key, a dot and
  \<^verbatim>\<open>rest.akismet.com\<close>, its port is 80 and its character set is \<^verbatim>\<open>utf-8\<close>.
\<close>

theorem client_only_apiKey:
  "c_endPoint (client (only_apiKey k)) = k @ ''.'' @ ''rest.akismet.com'' \<and>
   c_port (client (only_apiKey k)) = 80 \<and>
   c_charSet (client (only_apiKey k)) = ''utf-8''"
  by (simp add: client_def constructor_def only_apiKey_def or_string_def or_number_def Let_def)

section \<open>Responses\<close>

text \<open>
  C1. When the transport delivers a response without an error, \<^verbatim>\<open>verifyKey\<close> calls its
  callback once, with a \<^verbatim>\<open>null\<close> error, and with \<^verbatim>\<open>true\<close> exactly when the status is at least
  200 and below 300 and the body is the string \<^verbatim>\<open>valid\<close>; in every other case the boolean
  is \<^verbatim>\<open>false\<close>, as for the body \<^verbatim>\<open>invalid\<close> with status 200. The form of the request has
  the two fields \<^verbatim>\<open>key\<close> and \<^verbatim>\<open>blog\<close> and no other, and the URL is built from the
  configured host (the field \<^verbatim>\<open>_host\<close>, not \<^verbatim>\<open>_endPoint\<close>) and the path
  \<^verbatim>\<open>/1.1/verify-key\<close>.
\<close>

theorem verifyKey_outcome:
  "on_event (verifyKey c formatURL callback) (RequestDone None status body) =
     [callback None (200 \<le> status \<and> status < 300 \<and> body = ''valid'')] \<and>
   (on_event (verifyKey c formatURL Pair) (RequestDone None status body) = [(None, True)]) =
     (200 \<le> status \<and> status < 300 \<and> body = ''valid'') \<and>
   (on_event (verifyKey c formatURL Pair) (RequestDone None status body) = [(None, False)]) =
     (\<not> (200 \<le> status \<and> status < 300 \<and> body = ''valid'')) \<and>
   on_event (verifyKey c formatURL callback) (RequestDone None 200 ''invalid'') =
     [callback None False] \<and>
   form (request (verifyKey c formatURL callback)) =
     [''key'' \<mapsto> Str (c_apiKey c), ''blog'' \<mapsto> Str (c_blog c)] \<and>
   dom (form (request (verifyKey c formatURL callback))) = {''key'', ''blog''} \<and>
   url (request (verifyKey c formatURL callback)) =
     formatURL \<lparr>protocol = (if c_port c = 443 then ''https'' else ''http''),
                hostname = c_host c, pathname = ''/1.1/verify-key'', url_port = c_port c\<rparr>"
  by (auto simp add: verifyKey_def postRequest_def requestUrl_def Let_def)

text \<open>
  C2. When the transport delivers a response without an error, \<^verbatim>\<open>checkComment\<close> calls
  its callback once, with a \<^verbatim>\<open>null\<close> error, and with \<^verbatim>\<open>true\<close> exactly when the status is at
  least 200 and below 300 and the body is the string \<^verbatim>\<open>true\<close>; in every other case,
  the body \<^verbatim>\<open>false\<close> among them, the boolean is \<^verbatim>\<open>false\<close>. The URL is built from the
  per-key end point and the path \<^verbatim>\<open>/1.1/comment-check\<close>.
\<close>

theorem checkComment_outcome:
  "on_event (checkComment c formatURL options callback) (RequestDone None status body) =
     [callback None (200 \<le> status \<and> status < 300 \<and> body = ''true'')] \<and>
   (on_event (checkComment c formatURL options Pair) (RequestDone None status body) =
      [(None, True)]) =
     (200 \<le> status \<and> status < 300 \<and> body = ''true'') \<and>
   (on_event (checkComment c formatURL options Pair) (RequestDone None status body) =
      [(None, False)]) =
     (\<not> (200 \<le> status \<and> status < 300 \<and> body = ''true'')) \<and>
   on_event (checkComment c formatURL options callback) (RequestDone None status ''false'') =
     [callback None False] \<and>
   url (request (checkComment c formatURL options callback)) =
     formatURL \<lparr>protocol = (if c_port c = 443 then ''https'' else ''http''),
                hostname = c_endPoint c, pathname = ''/1.1/comment-check'',
                url_port = c_port c\<rparr>"
  by (auto simp add: checkComment_def postRequest_def requestUrl_def Let_def)

text \<open>
  C4. For \<^verbatim>\<open>submitSpam\<close> and \<^verbatim>\<open>submitHam\<close>, a response that arrives without an error
  gives the callback a \<^verbatim>\<open>null\<close> error whatever its status and body are. The error that
  the callback receives is the one the event carries (from the request's completion or
  from the domain), so a non-null error only comes from a failure of the transport.
\<close>

theorem submit_ignores_response:
  "on_event (submitSpam c formatURL options done) (RequestDone None status body) =
     [done None] \<and>
   on_event (submitHam c formatURL options done) (RequestDone None status body) =
     [done None] \<and>
   on_event (submitSpam c formatURL options done) (RequestDone (Some e) status body) =
     [done (Some e)] \<and>
   on_event (submitHam c formatURL options done) (RequestDone (Some e) status body) =
     [done (Some e)] \<and>
   on_event (submitSpam c formatURL options done) (DomainError err) = [done err] \<and>
   on_event (submitHam c formatURL options done) (DomainError err) = [done err]"
  by (simp add: submitSpam_def submitHam_def postRequest_def Let_def)

section \<open>Failures of the transport\<close>



section \<open>The alias\<close>

text \<open>
  C5. \<^verbatim>\<open>checkSpam\<close> is \<^verbatim>\<open>checkComment\<close> under another name: for the same parameters the
  two leave the same parameter object, send the same request and, for every sequence of
  events of the transport, call the callback in the same way.
\<close>

theorem checkSpam_alias:
  "checkSpam c formatURL options callback = checkComment c formatURL options callback \<and>
   params (checkSpam c formatURL options callback) =
     params (checkComment c formatURL options callback) \<and>
   request (checkSpam c formatURL options callback) =
     request (checkComment c formatURL options callback) \<and>
   deliveries (checkSpam c formatURL options callback) evs =
     deliveries (checkComment c formatURL options callback) evs"
  by (simp add: checkSpam_def)

section \<open>The parameter object\<close>

text \<open>
  C6. After \<^verbatim>\<open>checkComment\<close>, \<^verbatim>\<open>submitSpam\<close> or \<^verbatim>\<open>submitHam\<close> the caller's object has
  \<^verbatim>\<open>blog\<close> set to the client's blog and \<^verbatim>\<open>user_agent\<close> set to the client's user agent,
  whatever the caller had put there; every other key \<open>k\<close> keeps its value (or stays
  unset), and the form of the request is this very object.
\<close>

theorem params_overwritten:
  "(params (checkComment c formatURL options callback) ''blog'' = Some (Str (c_blog c)) \<and>
    params (checkComment c formatURL options callback) ''user_agent'' =
      Some (Str (c_userAgent c)) \<and>
    (k \<noteq> ''blog'' \<and> k \<noteq> ''user_agent'' \<longrightarrow>
      params (checkComment c formatURL options callback) k = options k) \<and>
    form (request (checkComment c formatURL options callback)) =
      params (checkComment c formatURL options callback)) \<and>
   (params (submitSpam c formatURL options done) ''blog'' = Some (Str (c_blog c)) \<and>
    params (submitSpam c formatURL options done) ''user_agent'' =
      Some (Str (c_userAgent c)) \<and>
    (k \<noteq> ''blog'' \<and> k \<noteq> ''user_agent'' \<longrightarrow>
      params (submitSpam c formatURL options done) k = options k) \<and>
    form (request (submitSpam c formatURL options done)) =
      params (submitSpam c formatURL options done)) \<and>
   (params (submitHam c formatURL options done) ''blog'' = Some (Str (c_blog c)) \<and>
    params (submitHam c formatURL options done) ''user_agent'' =
      Some (Str (c_userAgent c)) \<and>
    (k \<noteq> ''blog'' \<and> k \<noteq> ''user_agent'' \<longrightarrow>
      params (submitHam c formatURL options done) k = options k) \<and>
    form (request (submitHam c formatURL options done)) =
      params (submitHam c formatURL options done))"
  by (simp add: checkComment_def submitSpam_def submitHam_def postRequest_def Let_def)

text \<open>
  The theorem at a parameter object whose \<^verbatim>\<open>blog\<close> differs from the client's and that
  carries a \<^verbatim>\<open>user_ip\<close>: the address is kept, the blog is replaced.
\<close>

theorem params_overwritten_witness:
  "''user_ip'' \<noteq> ''blog'' \<and> ''user_ip'' \<noteq> ''user_agent'' \<and>
   params (checkComment (client (only_apiKey ''abc'' \<lparr>blog := Some ''http://my.blog.com''\<rparr>))
       hostname [''blog'' \<mapsto> Str ''http://other.example'', ''user_ip'' \<mapsto> Str ''1.1.1.1'']
       (Pair :: string option \<Rightarrow> bool \<Rightarrow> string option \<times> bool)) ''user_ip'' =
     Some (Str ''1.1.1.1'' :: unit any) \<and>
   params (submitSpam (client (only_apiKey ''abc'' \<lparr>blog := Some ''http://my.blog.com''\<rparr>))
       hostname [''blog'' \<mapsto> Str ''http://other.example'', ''user_ip'' \<mapsto> Str ''1.1.1.1'']
       (id :: string option \<Rightarrow> string option)) ''user_ip'' =
     Some (Str ''1.1.1.1'' :: unit any) \<and>
   params (submitHam (client (only_apiKey ''abc'' \<lparr>blog := Some ''http://my.blog.com''\<rparr>))
       hostname [''blog'' \<mapsto> Str ''http://other.example'', ''user_ip'' \<mapsto> Str ''1.1.1.1'']
       (id :: string option \<Rightarrow> string option)) ''blog'' =
     Some (Str ''http://my.blog.com'' :: unit any)"
proof -
  let ?c = "client (only_apiKey ''abc'' \<lparr>blog := Some ''http://my.blog.com''\<rparr>)"
  let ?o = "[''blog'' \<mapsto> Str ''http://other.example'', ''user_ip'' \<mapsto> Str ''1.1.1.1'']
              :: unit AkismetParameters"
  have key: "''user_ip'' \<noteq> ''blog'' \<and> ''user_ip'' \<noteq> ''user_agent''"
    by simp
  have old: "?o ''user_ip'' = Some (Str ''1.1.1.1'')"
    by simp
  have cfg: "c_blog ?c = ''http://my.blog.com''"
    by (simp add: client_def constructor_def only_apiKey_def or_string_def Let_def)
  note all = params_overwritten
    [of ?c hostname ?o "Pair :: string option \<Rightarrow> bool \<Rightarrow> string option \<times> bool"
      "''user_ip''" "id :: string option \<Rightarrow> string option"]
  from all key old cfg show ?thesis
    by metis
qed

section \<open>How often the callback is called\<close>

lemma length_deliveries:
  "(\<And>ev. length (on_event k ev) = 1) \<Longrightarrow> length (deliveries k evs) = length evs"
  by (induction evs) (simp_all add: deliveries_def)

lemma postRequest_once:
  "(\<And>err status body. length (callback err status body) = 1) \<Longrightarrow>
   length (on_event (postRequest c formatURL h path query callback) ev) = 1"
  by (cases ev) (simp_all add: postRequest_def split: option.split)

text \<open>
  C7, as the code has it. Each event that reaches the executor, a completion of the
  request or an \<^verbatim>\<open>'error'\<close> of the domain, leads to exactly one call of the caller's
  callback, for each of the five operations; nothing is retried. So the outcome is
  delivered exactly once when the transport delivers exactly one event.
\<close>

theorem once_per_event:
  "length (deliveries (verifyKey c formatURL callback) evs) = length evs \<and>
   length (deliveries (checkComment c formatURL options callback) evs) = length evs \<and>
   length (deliveries (checkSpam c formatURL options callback) evs) = length evs \<and>
   length (deliveries (submitSpam c formatURL options done) evs) = length evs \<and>
   length (deliveries (submitHam c formatURL options done) evs) = length evs"
  by (simp add: length_deliveries postRequest_once verifyKey_def checkComment_def
      checkSpam_def submitSpam_def submitHam_def Let_def)

text \<open>
  C7, as it is stated, fails: the executor keeps no record of having called back. When
  the response has been delivered and the domain then emits an error (an exception
  thrown later inside the domain, for example by the code that handles the response),
  line 309 has called the callback with \<^verbatim>\<open>(null, true)\<close> and line 302 calls it again
  with the error and \<^verbatim>\<open>false\<close>.
\<close>

theorem delivered_twice:
  "deliveries (verifyKey (client (only_apiKey ''abc'')) hostname
       (Pair :: string option \<Rightarrow> bool \<Rightarrow> string option \<times> bool)
       :: (unit, string, (string option \<times> bool) list) call)
     [RequestDone None 200 ''valid'', DomainError (Some ''thrown later'')] =
     [(None, True), (Some ''thrown later'', False)] \<and>
   length (deliveries (verifyKey (client (only_apiKey ''abc'')) hostname
       (Pair :: string option \<Rightarrow> bool \<Rightarrow> string option \<times> bool)
       :: (unit, string, (string option \<times> bool) list) call)
     [RequestDone None 200 ''valid'', DomainError (Some ''thrown later'')]) \<noteq> 1"
  by (simp add: deliveries_def verifyKey_def postRequest_def Let_def)

section \<open>The URL\<close>

text \<open>
  C8. The URL object that the executor hands to \<^verbatim>\<open>url.format\<close> has the protocol
  \<^verbatim>\<open>https\<close> exactly when the configured port is 443 and \<^verbatim>\<open>http\<close> exactly when it is not,
  and its host name, path and port are the given host name, the given path and the
  configured port; the URL of the request is the formatted object.
\<close>

theorem requestUrl_scheme:
  "(protocol (requestUrl c h path) = ''https'') = (c_port c = 443) \<and>
   (protocol (requestUrl c h path) = ''http'') = (c_port c \<noteq> 443) \<and>
   hostname (requestUrl c h path) = h \<and>
   pathname (requestUrl c h path) = path \<and>
   url_port (requestUrl c h path) = c_port c \<and>
   url (request (postRequest c formatURL h path query cb)) =
     formatURL (requestUrl c h path)"
  by (simp add: requestUrl_def postRequest_def)

section \<open>Falsy configuration fields\<close>

text \<open>
  C10. A port of 0 and an empty string for \<^verbatim>\<open>host\<close>, \<^verbatim>\<open>endPoint\<close>, \<^verbatim>\<open>userAgent\<close> or
  \<^verbatim>\<open>charSet\<close> give the same client as leaving the field out: port 80 (and so the
  protocol \<^verbatim>\<open>http\<close>), host \<^verbatim>\<open>rest.akismet.com\<close>, the end point made of the key, a dot and
  the host, the default user agent and \<^verbatim>\<open>utf-8\<close>.
\<close>

theorem falsy_fields_default:
  "client (opts\<lparr>port := Some 0\<rparr>) = client (opts\<lparr>port := None\<rparr>) \<and>
   c_port (client (opts\<lparr>port := Some 0\<rparr>)) = 80 \<and>
   protocol (requestUrl (client (opts\<lparr>port := Some 0\<rparr>)) h path) = ''http'' \<and>
   client (opts\<lparr>host := Some []\<rparr>) = client (opts\<lparr>host := None\<rparr>) \<and>
   c_host (client (opts\<lparr>host := Some []\<rparr>)) = ''rest.akismet.com'' \<and>
   client (opts\<lparr>endPoint := Some []\<rparr>) = client (opts\<lparr>endPoint := None\<rparr>) \<and>
   c_endPoint (client (opts\<lparr>endPoint := Some []\<rparr>)) =
     apiKey opts @ ''.'' @ c_host (client opts) \<and>
   client (opts\<lparr>userAgent := Some []\<rparr>) = client (opts\<lparr>userAgent := None\<rparr>) \<and>
   c_userAgent (client (opts\<lparr>userAgent := Some []\<rparr>)) =
     ''Generic Node.js/1.0.0 | Akismet/3.1.7'' \<and>
   client (opts\<lparr>charSet := Some []\<rparr>) = client (opts\<lparr>charSet := None\<rparr>) \<and>
   c_charSet (client (opts\<lparr>charSet := Some []\<rparr>)) = ''utf-8''"
  by (simp add: client_def constructor_def or_string_def or_number_def requestUrl_def Let_def)

end
